theory Spec2Isabelle
  imports Main "HOL-Library.Sublist"
begin

section \<open>Static dataset (src/data/mockData.js)\<close>

text \<open>
  A blog post record of \<^verbatim>\<open>blogPosts\<close>. The field \<^verbatim>\<open>id\<close> of the source is
  \<open>post_id\<close> here (\<open>id\<close> is the identity function of HOL). The strings of the
  dataset are written as \<open>string\<close>: lists of code units below 256, which covers
  every string of the dataset.

  The pages read the module constants \<^verbatim>\<open>blogPosts\<close> and \<^verbatim>\<open>projects\<close>; the
  functions below take the dataset as their first argument instead, so that a property
  can be stated for every dataset (one with unpublished posts too) and then used at the
  constants \<open>blogPosts\<close> and \<open>projects\<close>.
\<close>

record post =
  post_id :: string
  title :: string
  excerpt :: string
  date :: string
  readTime :: string
  tags :: "string list"
  markdownFile :: string
  published :: bool

text \<open>
  A project record of \<^verbatim>\<open>projects\<close>; \<^verbatim>\<open>null\<close> in \<^verbatim>\<open>liveUrl\<close> is \<open>None\<close>.
  The fields \<^verbatim>\<open>id\<close> and \<^verbatim>\<open>name\<close> are \<open>project_id\<close> and \<open>project_name\<close>.
\<close>

record project =
  project_id :: string
  project_name :: string
  description :: string
  techStack :: "string list"
  github :: "string option"
  liveUrl :: "string option"
  image :: string
  featured :: bool

definition blogPosts :: "post list" where
  "blogPosts =
    [\<lparr>post_id = ''understanding-database-indexes'',
      title = ''Understanding Database Indexes: B-Trees vs LSM-Trees'',
      excerpt = ''A deep dive into how different database index structures work and when to use each one for optimal performance.'',
      date = ''2025-01-15'',
      readTime = ''8 min read'',
      tags = [''Database'', ''Performance'', ''Data Structures''],
      markdownFile = ''understanding-database-indexes.md'',
      published = True\<rparr>,
     \<lparr>post_id = ''low-latency-communication'',
      title = ''Achieving Low Latency in Distributed Systems'',
      excerpt = ''Techniques and patterns for building ultra-low latency communication systems including TCP optimizations and zero-copy strategies.'',
      date = ''2025-01-10'',
      readTime = ''12 min read'',
      tags = [''System Design'', ''Performance'', ''Networking''],
      markdownFile = ''low-latency-communication.md'',
      published = True\<rparr>,
     \<lparr>post_id = ''microservices-patterns'',
      title = ''Essential Microservices Patterns Every Backend Engineer Should Know'',
      excerpt = ''Explore critical patterns like Circuit Breaker, Saga, and API Gateway that are essential for building robust microservices architectures.'',
      date = ''2025-01-05'',
      readTime = ''10 min read'',
      tags = [''Microservices'', ''Backend'', ''Architecture''],
      markdownFile = ''microservices-patterns.md'',
      published = True\<rparr>,
     \<lparr>post_id = ''postgres-query-optimization'',
      title = ''PostgreSQL Query Optimization Techniques'',
      excerpt = ''Learn how to analyze and optimize PostgreSQL queries using EXPLAIN, proper indexing strategies, and query rewriting techniques.'',
      date = ''2024-12-28'',
      readTime = ''15 min read'',
      tags = [''PostgreSQL'', ''Database'', ''Optimization''],
      markdownFile = ''postgres-query-optimization.md'',
      published = True\<rparr>]"

definition projects :: "project list" where
  "projects =
    [\<lparr>project_id = ''distributed-cache'',
      project_name = ''Distributed Cache System'',
      description = ''A high-performance distributed caching system built with Redis and Go, supporting consistent hashing and automatic failover.'',
      techStack = [''Go'', ''Redis'', ''Docker'', ''Kubernetes''],
      github = Some ''https://github.com/yalathiy/distributed-cache'',
      liveUrl = None,
      image = ''https://images.unsplash.com/photo-1558494949-ef010cbdcc31?w=800&h=600&fit=crop'',
      featured = True\<rparr>,
     \<lparr>project_id = ''realtime-analytics'',
      project_name = ''Real-time Analytics Pipeline'',
      description = ''Stream processing pipeline for real-time analytics using Apache Kafka, processing millions of events per second with low latency.'',
      techStack = [''Kafka'', ''Python'', ''ClickHouse'', ''Grafana''],
      github = Some ''https://github.com/yalathiy/realtime-analytics'',
      liveUrl = None,
      image = ''https://images.unsplash.com/photo-1551288049-bebda4e38f71?w=800&h=600&fit=crop'',
      featured = True\<rparr>,
     \<lparr>project_id = ''database-profiler'',
      project_name = ''Database Query Profiler'',
      description = ''A tool for profiling and analyzing database query performance with detailed execution plans and recommendations.'',
      techStack = [''Node.js'', ''PostgreSQL'', ''React'', ''D3.js''],
      github = Some ''https://github.com/yalathiy/db-profiler'',
      liveUrl = Some ''https://db-profiler-demo.com'',
      image = ''https://images.unsplash.com/photo-1460925895917-afdab827c52f?w=800&h=600&fit=crop'',
      featured = True\<rparr>,
     \<lparr>project_id = ''api-gateway'',
      project_name = ''Lightweight API Gateway'',
      description = ''A fast, lightweight API gateway with rate limiting, authentication, and request routing capabilities.'',
      techStack = [''Rust'', ''Redis'', ''PostgreSQL'', ''Docker''],
      github = Some ''https://github.com/yalathiy/api-gateway'',
      liveUrl = None,
      image = ''https://images.unsplash.com/photo-1555949963-ff9fe0c870eb?w=800&h=600&fit=crop'',
      featured = False\<rparr>]"

section \<open>JavaScript built-ins used by the pages\<close>

text \<open>
  A JavaScript string in general, such as the text typed into the search box, is a
  sequence of UTF-16 code units. A code unit is modelled by its number (those of a real
  string are below 65536), and \<open>units\<close> gives the code units of a string of the
  dataset.
\<close>

type_synonym jsstring = "nat list"

definition units :: "string \<Rightarrow> jsstring" where
  "units s = map of_char s"

text \<open>
  \<^verbatim>\<open>String.prototype.toLowerCase\<close> follows the case mappings of Unicode, which are
  not part of the repository: the pages below take it as their parameter \<open>lower\<close>,
  and what is proved of them holds for every function in its place. On a string of
  code units below 256 it computes \<open>toLowerCase_latin1\<close>: the letters A to Z and the
  Latin-1 capitals (192 to 222 except the multiplication sign 215) move up by 32, every
  other unit is unchanged. That function serves to evaluate the pages on the dataset.
\<close>

definition toLowerCase_unit :: "nat \<Rightarrow> nat" where
  "toLowerCase_unit n =
     (if (65 \<le> n \<and> n \<le> 90) \<or> (192 \<le> n \<and> n \<le> 222 \<and> n \<noteq> 215)
      then n + 32 else n)"

definition toLowerCase_latin1 :: "jsstring \<Rightarrow> jsstring" where
  "toLowerCase_latin1 s = map toLowerCase_unit s"

text \<open>
  \<^verbatim>\<open>s.startsWith(q)\<close> and \<^verbatim>\<open>s.includes(q)\<close> (\<open>str_includes\<close>), which tries \<open>q\<close> at every
  position of \<open>s\<close> from the left, the end position included (so the empty string is
  included in every string).
\<close>

fun startsWith :: "'a list \<Rightarrow> 'a list \<Rightarrow> bool" where
  "startsWith s [] = True"
| "startsWith [] (d # q) = False"
| "startsWith (c # s) (d # q) = (c = d \<and> startsWith s q)"

fun str_includes :: "'a list \<Rightarrow> 'a list \<Rightarrow> bool" where
  "str_includes [] q = (q = [])"
| "str_includes (c # s) q = (startsWith (c # s) q \<or> str_includes s q)"

text \<open>\<^verbatim>\<open>Array.prototype.includes\<close> on an array of strings.\<close>

definition array_includes :: "string list \<Rightarrow> string \<Rightarrow> bool" where
  "array_includes xs x = List.member xs x"

text \<open>
  \<^verbatim>\<open>Array.prototype.find\<close>: the first element satisfying the predicate,
  \<^verbatim>\<open>undefined\<close> (\<open>None\<close>) when there is none.
\<close>

fun array_find :: "('a \<Rightarrow> bool) \<Rightarrow> 'a list \<Rightarrow> 'a option" where
  "array_find P [] = None"
| "array_find P (x # xs) = (if P x then Some x else array_find P xs)"

text \<open>\<^verbatim>\<open>xs.slice(0, n)\<close>: the elements at the indices below \<open>n\<close>.\<close>

definition slice0 :: "nat \<Rightarrow> 'a list \<Rightarrow> 'a list" where
  "slice0 n xs = take n xs"

text \<open>
  \<^verbatim>\<open>[...new Set(xs)]\<close>: a \<^verbatim>\<open>Set\<close> keeps its elements in insertion order and
  ignores an element that is already present, so the first occurrence of each value
  stays, at its place.
\<close>

fun set_insert_all :: "'a list \<Rightarrow> 'a list \<Rightarrow> 'a list" where
  "set_insert_all acc [] = acc"
| "set_insert_all acc (x # xs) =
     set_insert_all (if List.member acc x then acc else acc @ [x]) xs"

definition spread_new_Set :: "'a list \<Rightarrow> 'a list" where
  "spread_new_Set xs = set_insert_all [] xs"

text \<open>\<^verbatim>\<open>xs.flatMap(f)\<close>.\<close>

definition flatMap :: "('a \<Rightarrow> 'b list) \<Rightarrow> 'a list \<Rightarrow> 'b list" where
  "flatMap f xs = concat (map f xs)"

section \<open>Blog list view (BlogPage)\<close>

text \<open>
  The state \<^verbatim>\<open>selectedTag\<close> is \<^verbatim>\<open>null\<close> (\<open>None\<close>) or a string. The test
  \<^verbatim>\<open>!selectedTag\<close> is true for \<^verbatim>\<open>null\<close> and for the empty string, the only falsy
  string of JavaScript.
\<close>

definition matchesSearch :: "(jsstring \<Rightarrow> jsstring) \<Rightarrow> jsstring \<Rightarrow> post \<Rightarrow> bool" where
  "matchesSearch lower searchQuery p =
     (str_includes (lower (units (title p))) (lower searchQuery) \<or>
      str_includes (lower (units (excerpt p))) (lower searchQuery))"

definition matchesTag :: "string option \<Rightarrow> post \<Rightarrow> bool" where
  "matchesTag selectedTag p =
     (case selectedTag of
        None \<Rightarrow> True
      | Some t \<Rightarrow> t = [] \<or> array_includes (tags p) t)"

definition filteredPosts ::
  "(jsstring \<Rightarrow> jsstring) \<Rightarrow> post list \<Rightarrow> jsstring \<Rightarrow> string option \<Rightarrow> post list" where
  "filteredPosts lower posts searchQuery selectedTag =
     filter (\<lambda>p. matchesSearch lower searchQuery p \<and> matchesTag selectedTag p \<and> published p)
       posts"

text \<open>
  The filter as the specification words it, to compare with \<open>filteredPosts\<close>: a
  string contains a query as a case-insensitive substring when the lower-cased query is
  a contiguous part of the lower-cased string, and a tag that is not \<^verbatim>\<open>null\<close> must
  be a member of the tag list.
\<close>

definition contains_ci :: "(jsstring \<Rightarrow> jsstring) \<Rightarrow> jsstring \<Rightarrow> string \<Rightarrow> bool" where
  "contains_ci lower q s = sublist (lower q) (lower (units s))"

definition spec_filterPosts ::
  "(jsstring \<Rightarrow> jsstring) \<Rightarrow> post list \<Rightarrow> jsstring \<Rightarrow> string option \<Rightarrow> post list" where
  "spec_filterPosts lower posts q t =
     filter (\<lambda>p. published p \<and>
                 (contains_ci lower q (title p) \<or> contains_ci lower q (excerpt p)) \<and>
                 (case t of None \<Rightarrow> True | Some s \<Rightarrow> s \<in> set (tags p))) posts"

definition allTags :: "post list \<Rightarrow> string list" where
  "allTags posts = spread_new_Set (flatMap tags posts)"

text \<open>
  The click handlers of the tag badges: \<^verbatim>\<open>setSelectedTag(null)\<close> on "All Topics",
  \<^verbatim>\<open>setSelectedTag(selectedTag === tag ? null : tag)\<close> on the badge of \<open>tag\<close>.
\<close>

definition clickAllTopics :: "string option \<Rightarrow> string option" where
  "clickAllTopics selectedTag = None"

definition clickTag :: "string \<Rightarrow> string option \<Rightarrow> string option" where
  "clickTag tag selectedTag = (if selectedTag = Some tag then None else Some tag)"

section \<open>Home page (HomePage)\<close>

definition featuredPosts :: "post list \<Rightarrow> post list" where
  "featuredPosts posts = slice0 3 (filter (\<lambda>p. published p) posts)"

definition featuredProjects :: "project list \<Rightarrow> project list" where
  "featuredProjects projs = slice0 3 (filter (\<lambda>p. featured p) projs)"

section \<open>Header\<close>

record navLink =
  path :: string
  label :: string

definition navLinks :: "navLink list" where
  "navLinks =
    [\<lparr>path = ''/'', label = ''Home''\<rparr>,
     \<lparr>path = ''/about'', label = ''About''\<rparr>,
     \<lparr>path = ''/blog'', label = ''Blog''\<rparr>,
     \<lparr>path = ''/projects'', label = ''Projects''\<rparr>,
     \<lparr>path = ''/contact'', label = ''Contact''\<rparr>]"

text \<open>\<^verbatim>\<open>isActive\<close>, with \<^verbatim>\<open>location.pathname\<close> as its first argument.\<close>

definition isActive :: "string \<Rightarrow> string \<Rightarrow> bool" where
  "isActive pathname p = (pathname = p)"

text \<open>The target of the links to an article: the template \<^verbatim>\<open>`/blog/${post.id}`\<close>.\<close>

definition blogPostPath :: "string \<Rightarrow> string" where
  "blogPostPath s = ''/blog/'' @ s"

section \<open>Article detail view (BlogPostPage)\<close>

text \<open>
  What the fetch of the markdown file can come to. \<^verbatim>\<open>fetch\<close> rejects only when
  the request itself fails (\<open>NetworkError\<close>, with the error's detail); a response with
  any status, success or not, fulfils it (\<open>HttpResponse\<close>, with the status and the
  body that \<^verbatim>\<open>response.text()\<close> reads). Reading the body can fail too
  (\<open>BodyError\<close>, with the status and the error's detail).
\<close>

datatype fetch_outcome =
  NetworkError string
| HttpResponse nat string
| BodyError nat string

text \<open>
  The component's state: the route parameter, the two \<^verbatim>\<open>useState\<close> cells, the
  URLs fetched so far (oldest first), the positions in that list of the fetches not yet
  settled, and what \<^verbatim>\<open>console.error\<close> has received.
\<close>

record page_state =
  slug :: string
  markdownContent :: string
  loading :: bool
  requests :: "string list"
  inflight :: "nat list"
  console :: "string list"

definition find_post :: "post list \<Rightarrow> string \<Rightarrow> post option" where
  "find_post posts s = array_find (\<lambda>p. post_id p = s) posts"

definition fallbackContent :: string where
  "fallbackContent =
     ''# Error loading article'' @ [CHR 0x0A, CHR 0x0A] @ ''Sorry, this article could not be loaded.''"

text \<open>
  The body of the effect: nothing without a post, else one fetch of
  \<^verbatim>\<open>`/blogs/${post.markdownFile}`\<close>.
\<close>

definition effect :: "post list \<Rightarrow> page_state \<Rightarrow> page_state" where
  "effect posts st =
     (case find_post posts (slug st) of
        None \<Rightarrow> st
      | Some p \<Rightarrow>
          st\<lparr>requests := requests st @ [''/blogs/'' @ markdownFile p],
             inflight := inflight st @ [length (requests st)]\<rparr>)"

text \<open>Mounting at a slug: the initial state, the first render, then the effect.\<close>

definition mount :: "post list \<Rightarrow> string \<Rightarrow> page_state" where
  "mount posts s =
     effect posts
       \<lparr>slug = s, markdownContent = [], loading = True,
        requests = [], inflight = [], console = []\<rparr>"

text \<open>
  The route parameter changes while the component stays mounted: the state cells keep
  their values, and the effect runs again only when its dependency \<^verbatim>\<open>[post]\<close> has
  changed. (React compares the two posts by reference; \<^verbatim>\<open>find\<close> returns the first
  record with the id, so two results are the same object exactly when they are equal.)
\<close>

definition navigate :: "post list \<Rightarrow> string \<Rightarrow> page_state \<Rightarrow> page_state" where
  "navigate posts s st =
     (let st' = st\<lparr>slug := s\<rparr>
      in if find_post posts s = find_post posts (slug st) then st' else effect posts st')"

text \<open>
  The promise chain \<^verbatim>\<open>.then(response => response.text()).then(...).catch(...)\<close>
  on the outcome of a fetch. The result pairs the rejection reason of the chain's last
  promise (\<open>None\<close>: fulfilled) with the new state.
\<close>

definition promise_chain :: "fetch_outcome \<Rightarrow> page_state \<Rightarrow> string option \<times> page_state" where
  "promise_chain out st =
     (case out of
        HttpResponse status text \<Rightarrow>
          (None, st\<lparr>markdownContent := text, loading := False\<rparr>)
      | NetworkError detail \<Rightarrow>
          (None, st\<lparr>markdownContent := fallbackContent, loading := False,
                     console := console st @ [''Error loading markdown: '' @ detail]\<rparr>)
      | BodyError status detail \<Rightarrow>
          (None, st\<lparr>markdownContent := fallbackContent, loading := False,
                     console := console st @ [''Error loading markdown: '' @ detail]\<rparr>))"

text \<open>
  The fetch at position \<open>i\<close> settles. No fetch is ever cancelled, so every fetch in
  flight can settle, whatever the slug is by then; the re-render that follows leaves
  the dependency of the effect unchanged.
\<close>

definition settle :: "nat \<Rightarrow> fetch_outcome \<Rightarrow> page_state \<Rightarrow> page_state" where
  "settle i out st =
     (if List.member (inflight st) i
      then snd (promise_chain out (st\<lparr>inflight := removeAll i (inflight st)\<rparr>))
      else st)"

datatype event = is_Settle: Settle nat fetch_outcome | is_Navigate: Navigate string

fun step :: "post list \<Rightarrow> event \<Rightarrow> page_state \<Rightarrow> page_state" where
  "step posts (Settle i out) st = settle i out st"
| "step posts (Navigate s) st = navigate posts s st"

fun run :: "post list \<Rightarrow> event list \<Rightarrow> page_state \<Rightarrow> page_state" where
  "run posts [] st = st"
| "run posts (e # es) st = run posts es (step posts e st)"

text \<open>What the component renders.\<close>

definition relatedPosts :: "post list \<Rightarrow> string \<Rightarrow> post list" where
  "relatedPosts posts s =
     slice0 3 (filter (\<lambda>p. post_id p \<noteq> s \<and> published p) posts)"

datatype content = LoadingArticle | ReactMarkdown string

datatype view = ArticleNotFound | Article post content "post list"

definition render :: "post list \<Rightarrow> page_state \<Rightarrow> view" where
  "render posts st =
     (case find_post posts (slug st) of
        None \<Rightarrow> ArticleNotFound
      | Some p \<Rightarrow>
          Article p
            (if loading st then LoadingArticle else ReactMarkdown (markdownContent st))
            (relatedPosts posts (slug st)))"

section \<open>Facts about the built-ins\<close>

lemma startsWith_prefix: "startsWith s q \<longleftrightarrow> prefix q s"
  by (induction s q rule: startsWith.induct) auto

lemma str_includes_sublist: "str_includes s q \<longleftrightarrow> sublist q s"
  by (induction s) (simp_all add: startsWith_prefix sublist_Cons_right)

lemma array_find_None: "array_find P xs = None \<longleftrightarrow> (\<forall>x\<in>set xs. \<not> P x)"
  by (induction xs) simp_all

lemma array_find_Some: "array_find P xs = Some x \<Longrightarrow> x \<in> set xs \<and> P x"
  by (induction xs) (auto split: if_splits)

lemma array_find_distinct:
  "distinct (map f xs) \<Longrightarrow> p \<in> set xs \<Longrightarrow> array_find (\<lambda>q. f q = f p) xs = Some p"
  by (induction xs) auto

lemma set_set_insert_all: "set (set_insert_all acc xs) = set acc \<union> set xs"
  by (induction xs arbitrary: acc) auto

lemma distinct_set_insert_all: "distinct acc \<Longrightarrow> distinct (set_insert_all acc xs)"
  by (induction xs arbitrary: acc) auto

section \<open>The blog list filter\<close>

lemma matchesSearch_contains_ci:
  "matchesSearch lower q p \<longleftrightarrow>
     contains_ci lower q (title p) \<or> contains_ci lower q (excerpt p)"
  by (simp add: matchesSearch_def contains_ci_def str_includes_sublist)

lemma matchesTag_iff:
  "matchesTag t p \<longleftrightarrow> (case t of None \<Rightarrow> True | Some s \<Rightarrow> s = [] \<or> s \<in> set (tags p))"
  by (simp add: matchesTag_def array_includes_def split: option.splits)

lemma matchesTag_member:
  "t \<noteq> Some [] \<Longrightarrow>
     matchesTag t p \<longleftrightarrow> (case t of None \<Rightarrow> True | Some s \<Rightarrow> s \<in> set (tags p))"
  by (cases t) (auto simp: matchesTag_iff)

lemma filteredPosts_same_lowered:
  "lower q' = lower q \<Longrightarrow> filteredPosts lower posts q' t = filteredPosts lower posts q t"
  by (simp add: filteredPosts_def matchesSearch_def)

lemma shipped_tags_nonempty: "[] \<notin> set (allTags blogPosts)"
  by code_simp

text \<open>
  The selection starts at \<^verbatim>\<open>null\<close>, and the two click handlers keep it \<^verbatim>\<open>null\<close> or
  a tag of the vocabulary, the badges being those of \<open>allTags\<close>.
\<close>

lemma selection_null_or_tag:
  "sel = None \<or> sel \<in> Some ` set (allTags posts) \<Longrightarrow> tag \<in> set (allTags posts) \<Longrightarrow>
     (clickTag tag sel = None \<or> clickTag tag sel \<in> Some ` set (allTags posts)) \<and>
     clickAllTopics sel = None"
  by (simp add: clickTag_def clickAllTopics_def)

text \<open>
  C1. The selected tag is \<^verbatim>\<open>null\<close> or a tag of the dataset, and no tag of the
  dataset is the empty string. For every dataset, every query \<open>q\<close> (any JavaScript
  string) and every such selection \<open>t\<close>, whatever \<^verbatim>\<open>toLowerCase\<close> computes, the
  filter returns exactly the posts, in dataset order and never re-sorted, that are
  published, whose title or excerpt contains \<open>q\<close> as a case-insensitive substring,
  and for which \<open>t\<close> is \<^verbatim>\<open>null\<close> or a member of the post's tag list. The empty
  query with no tag returns all published posts, and two queries that differ only in
  case return the same posts.
\<close>

theorem filteredPosts_characterisation:
  "(t \<noteq> Some [] \<longrightarrow>
      filteredPosts lower posts q t = spec_filterPosts lower posts q t \<and>
      filteredPosts lower posts q t =
        filter (\<lambda>p. published p \<and>
                    (sublist (lower q) (lower (units (title p))) \<or>
                     sublist (lower q) (lower (units (excerpt p)))) \<and>
                    (t = None \<or> (\<exists>s. t = Some s \<and> s \<in> set (tags p)))) posts \<and>
      subseq (filteredPosts lower posts q t) posts \<and>
      (lower [] = [] \<longrightarrow> filteredPosts lower posts [] None = filter published posts) \<and>
      (lower q' = lower q \<longrightarrow>
         filteredPosts lower posts q' t = filteredPosts lower posts q t)) \<and>
   [] \<notin> set (allTags blogPosts)"
proof (intro conjI impI)
  assume t: "t \<noteq> Some []"
  show "filteredPosts lower posts q t = spec_filterPosts lower posts q t"
    unfolding filteredPosts_def spec_filterPosts_def
    by (rule filter_cong) (auto simp: matchesSearch_contains_ci matchesTag_member [OF t])
  show "filteredPosts lower posts q t =
        filter (\<lambda>p. published p \<and>
                    (sublist (lower q) (lower (units (title p))) \<or>
                     sublist (lower q) (lower (units (excerpt p)))) \<and>
                    (t = None \<or> (\<exists>s. t = Some s \<and> s \<in> set (tags p)))) posts"
    unfolding filteredPosts_def
    by (rule filter_cong)
      (auto simp: matchesSearch_contains_ci contains_ci_def matchesTag_member [OF t]
         split: option.splits)
  show "subseq (filteredPosts lower posts q t) posts"
    by (simp add: filteredPosts_def)
  show "filteredPosts lower posts [] None = filter published posts" if "lower [] = []"
    using that
    by (simp add: filteredPosts_def matchesSearch_contains_ci matchesTag_iff contains_ci_def)
  show "filteredPosts lower posts q' t = filteredPosts lower posts q t" if "lower q' = lower q"
    using that by (rule filteredPosts_same_lowered)
next
  show "[] \<notin> set (allTags blogPosts)"
    by (rule shipped_tags_nonempty)
qed

theorem filteredPosts_characterisation_witness:
  "Some ''Database'' \<noteq> Some [] \<and>
   toLowerCase_latin1 [] = [] \<and>
   toLowerCase_latin1 (units ''postgres'') = toLowerCase_latin1 (units ''POSTGRES'') \<and>
   filteredPosts toLowerCase_latin1 blogPosts (units ''POSTGRES'') (Some ''Database'') =
     [blogPosts ! 3] \<and>
   filteredPosts toLowerCase_latin1 blogPosts (units ''postgres'') (Some ''Database'') =
     [blogPosts ! 3] \<and>
   subseq (filteredPosts toLowerCase_latin1 blogPosts (units ''POSTGRES'') (Some ''Database''))
     blogPosts \<and>
   filteredPosts toLowerCase_latin1 blogPosts [] None = blogPosts"
proof -
  have h: "Some ''Database'' \<noteq> Some []"
    by simp
  have l0: "toLowerCase_latin1 [] = []"
    by (simp add: toLowerCase_latin1_def)
  have lq: "toLowerCase_latin1 (units ''postgres'') = toLowerCase_latin1 (units ''POSTGRES'')"
    by code_simp
  have spec: "spec_filterPosts toLowerCase_latin1 blogPosts (units ''POSTGRES'')
      (Some ''Database'') = [blogPosts ! 3]"
    by code_simp
  have pub: "filter published blogPosts = blogPosts"
    by code_simp
  note T = filteredPosts_characterisation
    [of "Some ''Database''" toLowerCase_latin1 blogPosts "units ''POSTGRES''" "units ''postgres''"]
  from T h have a: "filteredPosts toLowerCase_latin1 blogPosts (units ''POSTGRES'')
      (Some ''Database'') = spec_filterPosts toLowerCase_latin1 blogPosts (units ''POSTGRES'')
      (Some ''Database'')"
    by blast
  from T h lq have b: "filteredPosts toLowerCase_latin1 blogPosts (units ''postgres'')
      (Some ''Database'') = filteredPosts toLowerCase_latin1 blogPosts (units ''POSTGRES'')
      (Some ''Database'')"
    by blast
  from T h have c: "subseq (filteredPosts toLowerCase_latin1 blogPosts (units ''POSTGRES'')
      (Some ''Database'')) blogPosts"
    by blast
  from T h l0 have d: "filteredPosts toLowerCase_latin1 blogPosts [] None =
      filter published blogPosts"
    by blast
  note a' = trans [OF a spec]
  note b' = trans [OF b a']
  note d' = trans [OF d pub]
  from h l0 lq a' b' c d' show ?thesis
    by (intro conjI)
qed

section \<open>Tag vocabulary and tag selection\<close>

text \<open>
  C6. The tag vocabulary of the blog list view is the union of the tag lists of all
  posts of the dataset, whatever their published flag (the definition of \<open>allTags\<close>
  never reads it), and holds no tag twice.
\<close>

theorem allTags_union:
  "set (allTags posts) = (\<Union>p \<in> set posts. set (tags p)) \<and> distinct (allTags posts)"
  by (simp add: allTags_def spread_new_Set_def flatMap_def set_set_insert_all
      distinct_set_insert_all)

theorem allTags_union_witness:
  "distinct (allTags [(blogPosts ! 0)\<lparr>published := False\<rparr>, blogPosts ! 1]) \<and>
   allTags [(blogPosts ! 0)\<lparr>published := False\<rparr>, blogPosts ! 1] =
     [''Database'', ''Performance'', ''Data Structures'', ''System Design'', ''Networking'']"
proof
  show "distinct (allTags [(blogPosts ! 0)\<lparr>published := False\<rparr>, blogPosts ! 1])"
    using allTags_union [of "[(blogPosts ! 0)\<lparr>published := False\<rparr>, blogPosts ! 1]"]
    by (rule conjunct2)
  show "allTags [(blogPosts ! 0)\<lparr>published := False\<rparr>, blogPosts ! 1] =
     [''Database'', ''Performance'', ''Data Structures'', ''System Design'', ''Networking'']"
    by code_simp
qed

text \<open>
  C9. Clicking the badge of a tag that is the selected tag clears the selection;
  clicking the badge of any other tag makes that tag the selected one, replacing the
  previous selection. The selection is \<^verbatim>\<open>null\<close> or one tag, never more.
\<close>

theorem clickTag_toggles:
  "clickTag t (Some t) = None \<and> (sel \<noteq> Some t \<longrightarrow> clickTag t sel = Some t) \<and>
   clickAllTopics sel = None"
  by (simp add: clickTag_def clickAllTopics_def)

theorem clickTag_toggles_witness:
  "clickTag ''Database'' (Some ''Database'') = None \<and>
   clickTag ''Database'' (Some ''Backend'') = Some ''Database'' \<and>
   clickTag ''Database'' None = Some ''Database''"
  using clickTag_toggles [of "''Database''" "Some ''Backend''"]
    clickTag_toggles [of "''Database''" None]
  by simp

section \<open>First three entries: related articles and the home page\<close>

lemma slice0_length: "length (slice0 n xs) = min n (length xs)"
  by (simp add: slice0_def min.commute)

lemma slice0_prefix: "prefix (slice0 n xs) xs"
  by (simp add: slice0_def take_is_prefix)

lemma slice0_all: "length xs \<le> n \<Longrightarrow> slice0 n xs = xs"
  by (simp add: slice0_def)

lemma slice0_filter_set: "x \<in> set (slice0 n (filter P xs)) \<Longrightarrow> x \<in> set xs \<and> P x"
  unfolding slice0_def by (auto dest: in_set_takeD)

text \<open>
  C5. For every slug \<open>S\<close>, the related articles are the first three posts of the
  dataset, in dataset order, with an id other than \<open>S\<close> and published; the post with
  id \<open>S\<close> is never among them, and when at most three posts qualify the list is
  exactly the qualifying posts, with no padding.
\<close>

theorem relatedPosts_first_three:
  "relatedPosts posts S = take 3 (filter (\<lambda>p. post_id p \<noteq> S \<and> published p) posts) \<and>
   (\<forall>p \<in> set (relatedPosts posts S). p \<in> set posts \<and> post_id p \<noteq> S \<and> published p) \<and>
   length (relatedPosts posts S) =
     min 3 (length (filter (\<lambda>p. post_id p \<noteq> S \<and> published p) posts)) \<and>
   (length (filter (\<lambda>p. post_id p \<noteq> S \<and> published p) posts) \<le> 3 \<longrightarrow>
      relatedPosts posts S = filter (\<lambda>p. post_id p \<noteq> S \<and> published p) posts)"
proof (intro conjI ballI impI)
  show "relatedPosts posts S = take 3 (filter (\<lambda>p. post_id p \<noteq> S \<and> published p) posts)"
    by (simp add: relatedPosts_def slice0_def)
  show "length (relatedPosts posts S) =
     min 3 (length (filter (\<lambda>p. post_id p \<noteq> S \<and> published p) posts))"
    unfolding relatedPosts_def by (rule slice0_length)
next
  fix p assume "p \<in> set (relatedPosts posts S)"
  then have "p \<in> set posts \<and> (post_id p \<noteq> S \<and> published p)"
    unfolding relatedPosts_def by (rule slice0_filter_set)
  then show "p \<in> set posts" "post_id p \<noteq> S" "published p" by simp_all
next
  assume "length (filter (\<lambda>p. post_id p \<noteq> S \<and> published p) posts) \<le> 3"
  then show "relatedPosts posts S = filter (\<lambda>p. post_id p \<noteq> S \<and> published p) posts"
    unfolding relatedPosts_def by (rule slice0_all)
qed

theorem relatedPosts_first_three_witness:
  "relatedPosts blogPosts ''postgres-query-optimization'' = take 3 blogPosts \<and>
   relatedPosts (take 2 blogPosts) ''low-latency-communication'' = [blogPosts ! 0] \<and>
   relatedPosts [blogPosts ! 0] ''understanding-database-indexes'' = []"
proof (intro conjI)
  have "take 3 (filter (\<lambda>p. post_id p \<noteq> ''postgres-query-optimization'' \<and> published p)
          blogPosts) = take 3 blogPosts"
    by code_simp
  with relatedPosts_first_three [of blogPosts "''postgres-query-optimization''"]
  show "relatedPosts blogPosts ''postgres-query-optimization'' = take 3 blogPosts"
    by (elim conjE) (rule trans)
  have "take 3 (filter (\<lambda>p. post_id p \<noteq> ''low-latency-communication'' \<and> published p)
          (take 2 blogPosts)) = [blogPosts ! 0]"
    by code_simp
  with relatedPosts_first_three [of "take 2 blogPosts" "''low-latency-communication''"]
  show "relatedPosts (take 2 blogPosts) ''low-latency-communication'' = [blogPosts ! 0]"
    by (elim conjE) (rule trans)
  have "take 3 (filter (\<lambda>p. post_id p \<noteq> ''understanding-database-indexes'' \<and> published p)
          [blogPosts ! 0]) = []"
    by code_simp
  with relatedPosts_first_three [of "[blogPosts ! 0]" "''understanding-database-indexes''"]
  show "relatedPosts [blogPosts ! 0] ''understanding-database-indexes'' = []"
    by (elim conjE) (rule trans)
qed

text \<open>
  C10. "Latest Articles" shows the first three published posts and "Featured Projects"
  the first three featured projects, both in dataset order; each list has as many
  entries as qualify, up to three, and holds only qualifying entries.
\<close>

theorem home_sections:
  "featuredPosts posts = take 3 (filter published posts) \<and>
   featuredProjects projs = take 3 (filter featured projs) \<and>
   length (featuredPosts posts) = min 3 (length (filter published posts)) \<and>
   length (featuredProjects projs) = min 3 (length (filter featured projs)) \<and>
   (\<forall>p \<in> set (featuredPosts posts). p \<in> set posts \<and> published p) \<and>
   (\<forall>p \<in> set (featuredProjects projs). p \<in> set projs \<and> featured p)"
proof (intro conjI ballI)
  show "featuredPosts posts = take 3 (filter published posts)"
    by (simp add: featuredPosts_def slice0_def)
  show "featuredProjects projs = take 3 (filter featured projs)"
    by (simp add: featuredProjects_def slice0_def)
  show "length (featuredPosts posts) = min 3 (length (filter published posts))"
    unfolding featuredPosts_def by (rule slice0_length)
  show "length (featuredProjects projs) = min 3 (length (filter featured projs))"
    unfolding featuredProjects_def by (rule slice0_length)
next
  fix p assume "p \<in> set (featuredPosts posts)"
  then have "p \<in> set posts \<and> published p"
    unfolding featuredPosts_def by (rule slice0_filter_set)
  then show "p \<in> set posts" "published p" by simp_all
next
  fix p assume "p \<in> set (featuredProjects projs)"
  then have "p \<in> set projs \<and> featured p"
    unfolding featuredProjects_def by (rule slice0_filter_set)
  then show "p \<in> set projs" "featured p" by simp_all
qed

theorem home_sections_witness:
  "featuredPosts blogPosts = take 3 blogPosts \<and>
   featuredProjects projects = take 3 projects \<and>
   featuredProjects (drop 2 projects) = [projects ! 2]"
proof (intro conjI)
  have "take 3 (filter published blogPosts) = take 3 blogPosts"
    by code_simp
  with home_sections [of blogPosts projects]
  show "featuredPosts blogPosts = take 3 blogPosts"
    by (elim conjE) (rule trans)
  have "take 3 (filter featured projects) = take 3 projects"
    by code_simp
  with home_sections [of blogPosts projects]
  show "featuredProjects projects = take 3 projects"
    by (elim conjE) (rule trans)
  have "take 3 (filter featured (drop 2 projects)) = [projects ! 2]"
    by code_simp
  with home_sections [of blogPosts "drop 2 projects"]
  show "featuredProjects (drop 2 projects) = [projects ! 2]"
    by (elim conjE) (rule trans)
qed

section \<open>Active navigation entry\<close>

text \<open>
  C8. A navigation entry is active exactly when its path equals the current path; on
  the path of an article, \<^verbatim>\<open>/blog/<slug>\<close> for any slug, no entry of the header is
  active, the entry \<^verbatim>\<open>/blog\<close> included.
\<close>

theorem isActive_exact:
  "(isActive pathname p \<longleftrightarrow> pathname = p) \<and>
   (\<forall>l \<in> set navLinks. \<not> isActive (blogPostPath s) (path l))"
  by (simp add: isActive_def blogPostPath_def navLinks_def)

theorem isActive_exact_witness:
  "\<not> isActive (blogPostPath ''abc'') ''/blog'' \<and> isActive ''/blog'' ''/blog'' \<and>
   map (\<lambda>l. isActive (blogPostPath ''abc'') (path l)) navLinks =
     [False, False, False, False, False]"
proof -
  have "\<lparr>path = ''/blog'', label = ''Blog''\<rparr> \<in> set navLinks"
    by (simp add: navLinks_def)
  with isActive_exact [of "''/blog''" "''/blog''" "''abc''"]
  have "\<not> isActive (blogPostPath ''abc'') ''/blog''" "isActive ''/blog'' ''/blog''"
    by auto
  moreover have "map (\<lambda>l. isActive (blogPostPath ''abc'') (path l)) navLinks =
     [False, False, False, False, False]"
    by (simp add: navLinks_def isActive_def blogPostPath_def)
  ultimately show ?thesis by simp
qed

section \<open>The article loader\<close>

lemma find_post_None: "find_post posts s = None \<longleftrightarrow> (\<forall>p \<in> set posts. post_id p \<noteq> s)"
  by (simp add: find_post_def array_find_None)

lemma find_post_Some: "find_post posts s = Some p \<Longrightarrow> p \<in> set posts \<and> post_id p = s"
  unfolding find_post_def by (rule array_find_Some)

lemma find_post_member: "p \<in> set posts \<Longrightarrow> find_post posts (post_id p) \<noteq> None"
  by (auto simp: find_post_None)

lemma find_post_unique:
  "distinct (map post_id posts) \<Longrightarrow> p \<in> set posts \<Longrightarrow> find_post posts (post_id p) = Some p"
  unfolding find_post_def by (rule array_find_distinct)

lemma settle_keeps: "requests (settle i out st) = requests st \<and> slug (settle i out st) = slug st"
  by (simp add: settle_def promise_chain_def split: fetch_outcome.splits)

lemma run_settles_keeps:
  "list_all is_Settle es \<Longrightarrow>
     requests (run posts es st) = requests st \<and> slug (run posts es st) = slug st"
proof (induction es arbitrary: st)
  case Nil
  show ?case by simp
next
  case (Cons e es)
  from Cons.prems obtain i out where e: "e = Settle i out"
    by (cases e) simp_all
  from Cons.prems have "list_all is_Settle es" by simp
  from Cons.IH [OF this, of "settle i out st"] show ?case
    by (simp add: e settle_keeps)
qed

lemma mount_requests:
  "requests (mount posts s) =
     (case find_post posts s of None \<Rightarrow> [] | Some p \<Rightarrow> [''/blogs/'' @ markdownFile p])"
  by (simp add: mount_def effect_def split: option.splits)

lemma mount_slug: "slug (mount posts s) = s"
  by (simp add: mount_def effect_def split: option.splits)

lemma mount_inflight:
  "inflight (mount posts s) = (case find_post posts s of None \<Rightarrow> [] | Some p \<Rightarrow> [0])"
  by (simp add: mount_def effect_def split: option.splits)

lemma mount_loading: "loading (mount posts s) \<and> markdownContent (mount posts s) = []"
  by (simp add: mount_def effect_def split: option.splits)

lemma promise_chain_fulfilled: "fst (promise_chain out st) = None"
  by (simp add: promise_chain_def split: fetch_outcome.splits)

lemma promise_chain_rejection:
  "snd (promise_chain (NetworkError d) st) =
     st\<lparr>markdownContent := fallbackContent, loading := False,
        console := console st @ [''Error loading markdown: '' @ d]\<rparr>"
  "snd (promise_chain (BodyError n d) st) =
     st\<lparr>markdownContent := fallbackContent, loading := False,
        console := console st @ [''Error loading markdown: '' @ d]\<rparr>"
  by (simp_all add: promise_chain_def)

lemma find_postgres: "find_post blogPosts ''postgres-query-optimization'' = Some (blogPosts ! 3)"
  by code_simp

lemma find_missing: "find_post blogPosts ''does-not-exist'' = None"
  by code_simp

lemma url_postgres:
  "''/blogs/'' @ markdownFile (blogPosts ! 3) = ''/blogs/postgres-query-optimization.md''"
  by code_simp

text \<open>
  C3. After a mount at a slug, followed by any number of fetch settlements (and no
  change of slug): when no record has the slug as its id, the view is the not-found
  state and no fetch was issued; when a record matches (its id equals the slug), the
  fetches issued are exactly one, to \<^verbatim>\<open>/blogs/<markdownFile>\<close> of the matched record,
  and a response's text is handed to the markdown renderer as it is.
\<close>

theorem mount_fetches:
  "list_all is_Settle es \<Longrightarrow>
     (case find_post posts s of
        None \<Rightarrow>
          (\<forall>p \<in> set posts. post_id p \<noteq> s) \<and>
          requests (run posts es (mount posts s)) = [] \<and>
          render posts (run posts es (mount posts s)) = ArticleNotFound
      | Some p \<Rightarrow>
          p \<in> set posts \<and> post_id p = s \<and>
          requests (run posts es (mount posts s)) = [''/blogs/'' @ markdownFile p] \<and>
          render posts (settle 0 (HttpResponse status text) (mount posts s)) =
            Article p (ReactMarkdown text) (relatedPosts posts s))"
proof -
  assume es: "list_all is_Settle es"
  note keep = run_settles_keeps [OF es, of posts "mount posts s"]
  show ?thesis
  proof (cases "find_post posts s")
    case None
    then have "\<forall>p \<in> set posts. post_id p \<noteq> s"
      by (simp add: find_post_None)
    moreover have "requests (run posts es (mount posts s)) = []"
      using keep None by (simp add: mount_requests)
    moreover have "render posts (run posts es (mount posts s)) = ArticleNotFound"
      using keep None by (simp add: render_def mount_slug)
    ultimately show ?thesis using None by simp
  next
    case (Some p)
    then have "p \<in> set posts \<and> post_id p = s"
      by (rule find_post_Some)
    moreover have "requests (run posts es (mount posts s)) = [''/blogs/'' @ markdownFile p]"
      using keep Some by (simp add: mount_requests)
    moreover have "render posts (settle 0 (HttpResponse status text) (mount posts s)) =
        Article p (ReactMarkdown text) (relatedPosts posts s)"
      using Some
      by (simp add: render_def settle_def mount_inflight mount_slug promise_chain_def)
    ultimately show ?thesis using Some by simp
  qed
qed

theorem mount_fetches_witness:
  "list_all is_Settle [Settle 0 (HttpResponse 200 ''# Title'')] \<and>
   requests (run blogPosts [Settle 0 (HttpResponse 200 ''# Title'')]
      (mount blogPosts ''postgres-query-optimization'')) =
     [''/blogs/postgres-query-optimization.md''] \<and>
   render blogPosts (settle 0 (HttpResponse 200 ''# Title'')
      (mount blogPosts ''postgres-query-optimization'')) =
     Article (blogPosts ! 3) (ReactMarkdown ''# Title'')
       (relatedPosts blogPosts ''postgres-query-optimization'') \<and>
   requests (run blogPosts [] (mount blogPosts ''does-not-exist'')) = [] \<and>
   render blogPosts (run blogPosts [] (mount blogPosts ''does-not-exist'')) = ArticleNotFound"
proof -
  have h: "list_all is_Settle [Settle 0 (HttpResponse 200 ''# Title'')]"
    by simp
  have h0: "list_all is_Settle []"
    by simp
  from mount_fetches [OF h, of blogPosts "''postgres-query-optimization''" 200 "''# Title''"]
    mount_fetches [OF h0, of blogPosts "''does-not-exist''"]
  show ?thesis
    unfolding find_postgres find_missing option.case url_postgres using h by blast
qed

text \<open>
  C2, at a response that is not a success. \<^verbatim>\<open>fetch\<close> fulfils its promise for a
  response with status 404, the chain never looks at \<^verbatim>\<open>response.ok\<close> or at the
  status, and the body of the response is rendered as the article, not the fallback
  document. (The rejections do reach the fallback: \<open>promise_chain_rejection\<close>.)
\<close>

theorem non_success_response_rendered:
  "render blogPosts
     (settle 0 (HttpResponse 404 ''Not Found'') (mount blogPosts ''postgres-query-optimization'')) =
     Article (blogPosts ! 3) (ReactMarkdown ''Not Found'')
       (relatedPosts blogPosts ''postgres-query-optimization'') \<and>
   ''Not Found'' \<noteq> fallbackContent"
  by code_simp

section \<open>Change of slug while mounted\<close>

text \<open>
  What a change of slug to another record does to the state: one more fetch is issued
  and in flight, the two state cells keep their values, and a fetch that was in flight
  before is in flight still.
\<close>

lemma navigate_state:
  "find_post posts s' = Some p' \<Longrightarrow> find_post posts s' \<noteq> find_post posts (slug st) \<Longrightarrow>
     requests (navigate posts s' st) = requests st @ [''/blogs/'' @ markdownFile p'] \<and>
     inflight (navigate posts s' st) = inflight st @ [length (requests st)] \<and>
     loading (navigate posts s' st) = loading st \<and>
     markdownContent (navigate posts s' st) = markdownContent st"
  by (simp add: navigate_def effect_def Let_def)

text \<open>
  C4, at a change of slug from the first article of the dataset to the second. A mount
  at the second article renders the loading placeholder while its fetch is in flight.
  When instead the first article has loaded and the slug then changes to the second,
  the fetch of the second article is in flight but the view does not return to the
  loading state: the first article's text is rendered under the second article's
  metadata. And when the slug changes while the first fetch is still in flight, that
  fetch is not discarded: settling after the second one, it replaces the second
  article's text by the first article's.
\<close>

theorem stale_content_after_navigation:
  "render blogPosts (mount blogPosts ''low-latency-communication'') =
     Article (blogPosts ! 1) LoadingArticle
       (relatedPosts blogPosts ''low-latency-communication'') \<and>
   render blogPosts
     (run blogPosts
        [Settle 0 (HttpResponse 200 ''# Indexes''), Navigate ''low-latency-communication'']
        (mount blogPosts ''understanding-database-indexes'')) =
     Article (blogPosts ! 1) (ReactMarkdown ''# Indexes'')
       (relatedPosts blogPosts ''low-latency-communication'') \<and>
   inflight
     (run blogPosts
        [Settle 0 (HttpResponse 200 ''# Indexes''), Navigate ''low-latency-communication'']
        (mount blogPosts ''understanding-database-indexes'')) = [1] \<and>
   requests
     (run blogPosts
        [Settle 0 (HttpResponse 200 ''# Indexes''), Navigate ''low-latency-communication'']
        (mount blogPosts ''understanding-database-indexes'')) =
     [''/blogs/understanding-database-indexes.md'', ''/blogs/low-latency-communication.md''] \<and>
   render blogPosts
     (run blogPosts
        [Navigate ''low-latency-communication'', Settle 1 (HttpResponse 200 ''# Latency''),
         Settle 0 (HttpResponse 200 ''# Indexes'')]
        (mount blogPosts ''understanding-database-indexes'')) =
     Article (blogPosts ! 1) (ReactMarkdown ''# Indexes'')
       (relatedPosts blogPosts ''low-latency-communication'')"
  by code_simp

section \<open>Unpublished posts\<close>

lemma find_post_published_update:
  "find_post (map (\<lambda>p. p\<lparr>published := b p\<rparr>) posts) s =
     map_option (\<lambda>p. p\<lparr>published := b p\<rparr>) (find_post posts s)"
  unfolding find_post_def by (induction posts) simp_all

text \<open>
  C7. Slug resolution never reads the published flag: it commutes with any change of
  the flags. For every post of the dataset, a mount at its id is not the not-found
  state; with unique ids (the invariant of the dataset) it resolves to that very post,
  also when the post is unpublished, while an unpublished post is in no result of the
  list filter, of the related articles, or of the home page's latest articles.
\<close>

theorem unpublished_reachable:
  "p \<in> set posts \<Longrightarrow>
     find_post posts (post_id p) \<noteq> None \<and>
     render posts (mount posts (post_id p)) \<noteq> ArticleNotFound \<and>
     (distinct (map post_id posts) \<longrightarrow>
        find_post posts (post_id p) = Some p \<and>
        render posts (mount posts (post_id p)) =
          Article p LoadingArticle (relatedPosts posts (post_id p))) \<and>
     (\<not> published p \<longrightarrow>
        p \<notin> set (filteredPosts lower posts q t) \<and> p \<notin> set (relatedPosts posts s) \<and>
        p \<notin> set (featuredPosts posts)) \<and>
     find_post (map (\<lambda>p. p\<lparr>published := b p\<rparr>) posts) s =
       map_option (\<lambda>p. p\<lparr>published := b p\<rparr>) (find_post posts s)"
proof (intro conjI impI)
  assume p: "p \<in> set posts"
  then show f: "find_post posts (post_id p) \<noteq> None"
    by (rule find_post_member)
  then show "render posts (mount posts (post_id p)) \<noteq> ArticleNotFound"
    by (auto simp: render_def mount_slug)
  {
    assume "distinct (map post_id posts)"
    then show u: "find_post posts (post_id p) = Some p"
      using p by (rule find_post_unique)
    then show "render posts (mount posts (post_id p)) =
        Article p LoadingArticle (relatedPosts posts (post_id p))"
      by (simp add: render_def mount_slug mount_loading)
  }
  {
    assume "\<not> published p"
    then show "p \<notin> set (filteredPosts lower posts q t)"
      by (simp add: filteredPosts_def)
    show "p \<notin> set (relatedPosts posts s)"
      using \<open>\<not> published p\<close> slice0_filter_set [of p 3 _ posts]
      unfolding relatedPosts_def by blast
    show "p \<notin> set (featuredPosts posts)"
      using \<open>\<not> published p\<close> slice0_filter_set [of p 3 _ posts]
      unfolding featuredPosts_def by blast
  }
  show "find_post (map (\<lambda>p. p\<lparr>published := b p\<rparr>) posts) s =
       map_option (\<lambda>p. p\<lparr>published := b p\<rparr>) (find_post posts s)"
    by (rule find_post_published_update)
qed

theorem unpublished_reachable_witness:
  "(blogPosts ! 0)\<lparr>published := False\<rparr> \<in>
     set [(blogPosts ! 0)\<lparr>published := False\<rparr>, blogPosts ! 1] \<and>
   distinct (map post_id [(blogPosts ! 0)\<lparr>published := False\<rparr>, blogPosts ! 1]) \<and>
   \<not> published ((blogPosts ! 0)\<lparr>published := False\<rparr>) \<and>
   find_post [(blogPosts ! 0)\<lparr>published := False\<rparr>, blogPosts ! 1]
     (post_id ((blogPosts ! 0)\<lparr>published := False\<rparr>)) =
     Some ((blogPosts ! 0)\<lparr>published := False\<rparr>) \<and>
   (blogPosts ! 0)\<lparr>published := False\<rparr> \<notin>
     set (filteredPosts toLowerCase_latin1
            [(blogPosts ! 0)\<lparr>published := False\<rparr>, blogPosts ! 1] [] None) \<and>
   (blogPosts ! 0)\<lparr>published := False\<rparr> \<notin>
     set (relatedPosts [(blogPosts ! 0)\<lparr>published := False\<rparr>, blogPosts ! 1]
            ''low-latency-communication'')"
proof -
  let ?d = "(blogPosts ! 0)\<lparr>published := False\<rparr>"
  have m: "?d \<in> set [?d, blogPosts ! 1]"
    by simp
  have d: "distinct (map post_id [?d, blogPosts ! 1])"
    by code_simp
  have u: "\<not> published ?d"
    by simp
  from unpublished_reachable [OF m, where lower = toLowerCase_latin1 and q = "[]"
      and t = None and s = "''low-latency-communication''"] d u
  show ?thesis
    using m by blast
qed

end
